theory Spec2Isabelle
  imports Main
begin

section \<open>The Artifactory client: data\<close>

text \<open>
  The module \<^verbatim>\<open>src/lib/ArtifactoryClient.js\<close> is a class whose methods issue HTTP
  requests through \<^verbatim>\<open>fetch\<close> and touch the local file system through \<^verbatim>\<open>fs\<close>.
  The embedding makes both explicit: every method is a function from a \<open>world\<close> (the
  server, the file system, and the trace of what has been done so far) to a result and
  the world afterwards. A rejected promise or a thrown exception is the \<open>Inl\<close> branch of
  the result.
\<close>

subsection \<open>JavaScript values\<close>

text \<open>
  What \<^verbatim>\<open>res.json()\<close> yields. Numbers are the integers only; an object is its list of
  members, keys distinct. A JavaScript value that may also be \<^verbatim>\<open>undefined\<close> is a
  \<open>json option\<close>, \<open>None\<close> being \<^verbatim>\<open>undefined\<close>.
\<close>

datatype json =
    JNull
  | JBool bool
  | JNum int
  | JStr string
  | JArr "json list"
  | JObj "(string \<times> json) list"

datatype error =
    Error string
  | ReferenceError string
  | TypeError string
  | FetchError string
  | StreamError string

text \<open>Reading an identifier that no scope of the module binds.\<close>

definition unbound :: "string \<Rightarrow> error" where
  "unbound x = ReferenceError (x @ '' is not defined'')"

text \<open>JavaScript truthiness, as \<^verbatim>\<open>!v\<close>, \<^verbatim>\<open>&&\<close> and \<^verbatim>\<open>if (v)\<close> read it.\<close>

fun truthy :: "json option \<Rightarrow> bool" where
  "truthy None = False"
| "truthy (Some JNull) = False"
| "truthy (Some (JBool b)) = b"
| "truthy (Some (JNum n)) = (n \<noteq> 0)"
| "truthy (Some (JStr s)) = (s \<noteq> [])"
| "truthy (Some (JArr xs)) = True"
| "truthy (Some (JObj kvs)) = True"

text \<open>
  The member read \<^verbatim>\<open>v.k\<close>, for the member names the client reads (\<^verbatim>\<open>children\<close>,
  \<^verbatim>\<open>folder\<close>, \<^verbatim>\<open>uri\<close>, \<^verbatim>\<open>checksums\<close>, \<^verbatim>\<open>md5\<close>, \<^verbatim>\<open>substring\<close>): a TypeError on
  \<^verbatim>\<open>undefined\<close> and \<^verbatim>\<open>null\<close>, the member of an object, \<^verbatim>\<open>undefined\<close> on everything
  else. The message puts the member name between single quotes.
\<close>

definition quoted :: "string \<Rightarrow> string" where
  "quoted k = CHR 0x27 # k @ [CHR 0x27]"

fun getProp :: "json option \<Rightarrow> string \<Rightarrow> error + json option" where
  "getProp None k =
     Inl (TypeError (''Cannot read properties of undefined (reading '' @ quoted k @ '')''))"
| "getProp (Some JNull) k =
     Inl (TypeError (''Cannot read properties of null (reading '' @ quoted k @ '')''))"
| "getProp (Some (JObj kvs)) k = Inr (map_of kvs k)"
| "getProp (Some v) k = Inr None"

text \<open>Decimal rendering of a number, as \<^verbatim>\<open>String(n)\<close> and a template literal do it.\<close>

definition digit :: "nat \<Rightarrow> char" where
  "digit d = ''0123456789'' ! d"

fun String_nat :: "nat \<Rightarrow> string" where
  "String_nat n = (if n < 10 then [digit n] else String_nat (n div 10) @ [digit (n mod 10)])"

declare String_nat.simps [simp del]

definition String_int :: "int \<Rightarrow> string" where
  "String_int i = (if i < 0 then CHR ''-'' # String_nat (nat (- i)) else String_nat (nat i))"

definition String_bool :: "bool \<Rightarrow> string" where
  "String_bool b = (if b then ''true'' else ''false'')"

fun joinComma :: "string list \<Rightarrow> string" where
  "joinComma [] = []"
| "joinComma [s] = s"
| "joinComma (s # t # ss) = s @ CHR '','' # joinComma (t # ss)"

fun String_json :: "json \<Rightarrow> string" where
  "String_json JNull = ''null''"
| "String_json (JBool b) = String_bool b"
| "String_json (JNum n) = String_int n"
| "String_json (JStr s) = s"
| "String_json (JArr xs) = joinComma (map (\<lambda>x. if x = JNull then [] else String_json x) xs)"
| "String_json (JObj kvs) = ''[object Object]''"

definition String_js :: "json option \<Rightarrow> string" where
  "String_js v = (case v of None \<Rightarrow> ''undefined'' | Some j \<Rightarrow> String_json j)"

subsection \<open>Requests, responses and the world\<close>

datatype http_method = GET | HEAD | PUT | POST | DELETE

text \<open>
  The body of an upload: the read stream over a local file, or the pending
  \<^verbatim>\<open>fetch\<close> of a remote URL.
\<close>

datatype body = FileStream string | RemoteFetch string

record request =
  r_url :: string
  r_method :: http_method
  r_headers :: "(string \<times> string) list"
  r_body :: "body option"

text \<open>
  The fields of a response that the client reads: \<^verbatim>\<open>res.ok\<close>, \<^verbatim>\<open>res.status\<close>, the body
  as \<^verbatim>\<open>res.text()\<close> and \<^verbatim>\<open>res.body\<close> deliver it, and the body as \<^verbatim>\<open>res.json()\<close> parses
  it (\<open>None\<close> when it is not JSON).
\<close>

record response =
  ok :: bool
  status :: nat
  bodyText :: string
  bodyJson :: "json option"

datatype fetch_result = Rejected string | Response response

datatype event =
    Fetched request
  | ReadStreamOpened string
  | WriteStreamOpened string

text \<open>
  The environment of a call. \<open>server\<close> answers a request, given everything that happened
  before it. \<open>files\<close> and \<open>dirs\<close> are the local file system; \<open>resolve\<close> and \<open>dirname\<close>
  are \<^verbatim>\<open>Path.resolve\<close> and \<^verbatim>\<open>Path.dirname\<close>; \<open>md5\<close> is the digest \<^verbatim>\<open>md5-file\<close> computes
  from a file's content. \<open>write_fault p = Some k\<close> says that a write stream on \<open>p\<close> emits
  \<^verbatim>\<open>error\<close> after \<open>k\<close> bytes. \<open>race\<close> names, among the promises of one \<^verbatim>\<open>Promise.all\<close>
  that reject, the one that rejects first. \<open>trace\<close> records the requests sent and the
  streams opened, oldest first.
\<close>

record world =
  server :: "event list \<Rightarrow> request \<Rightarrow> fetch_result"
  files :: "string \<rightharpoonup> string"
  dirs :: "string set"
  resolve :: "string \<Rightarrow> string"
  dirname :: "string \<Rightarrow> string"
  md5 :: "string \<Rightarrow> string"
  write_fault :: "string \<Rightarrow> nat option"
  race :: "nat list \<Rightarrow> nat"
  trace :: "event list"

type_synonym 'a io = "world \<Rightarrow> (error + 'a) \<times> world"

definition resolved :: "'a \<Rightarrow> 'a io" where
  "resolved x w = (Inr x, w)"

definition throw :: "error \<Rightarrow> 'a io" where
  "throw e w = (Inl e, w)"

text \<open>\<^verbatim>\<open>const x = await m; rest\<close> is \<open>await m (\<lambda>x. rest)\<close>: a rejection of \<open>m\<close> ends the call.\<close>

definition await :: "'a io \<Rightarrow> ('a \<Rightarrow> 'b io) \<Rightarrow> 'b io" where
  "await m f w = (case m w of (Inl e, w') \<Rightarrow> (Inl e, w') | (Inr x, w') \<Rightarrow> f x w')"

text \<open>A synchronous expression that may throw, inside an async function.\<close>

definition sync :: "error + 'a \<Rightarrow> 'a io" where
  "sync r w = (case r of Inl e \<Rightarrow> (Inl e, w) | Inr x \<Rightarrow> (Inr x, w))"

text \<open>\<^verbatim>\<open>try { await m } catch (e) {}\<close>: the effects of \<open>m\<close> stay, its outcome is dropped.\<close>

definition tryIgnore :: "'a io \<Rightarrow> unit io" where
  "tryIgnore m w = (Inr (), snd (m w))"

text \<open>\<^verbatim>\<open>fetch(url, options)\<close>: the request reaches the server and is recorded.\<close>

definition fetch :: "request \<Rightarrow> response io" where
  "fetch req w =
     (case server w (trace w) req of
        Rejected msg \<Rightarrow> (Inl (FetchError msg), w\<lparr>trace := trace w @ [Fetched req]\<rparr>)
      | Response res \<Rightarrow> (Inr res, w\<lparr>trace := trace w @ [Fetched req]\<rparr>))"

definition res_json :: "response \<Rightarrow> json io" where
  "res_json res = (case bodyJson res of None \<Rightarrow> throw (FetchError ''invalid-json'') | Some j \<Rightarrow> resolved j)"

definition existsSync :: "world \<Rightarrow> string \<Rightarrow> bool" where
  "existsSync w p = (p \<in> dom (files w) \<or> p \<in> dirs w)"

text \<open>
  \<^verbatim>\<open>fs.createWriteStream(p)\<close> followed by \<^verbatim>\<open>res.body.pipe(stream)\<close> and the wait for
  \<^verbatim>\<open>finish\<close> or \<^verbatim>\<open>error\<close>. The stream replaces what \<open>p\<close> held. The response body is
  taken to arrive whole; a fault of the write stream leaves the bytes written so far.
\<close>

definition pipeToFile :: "string \<Rightarrow> string \<Rightarrow> unit io" where
  "pipeToFile content p w =
     (let w' = w\<lparr>trace := trace w @ [WriteStreamOpened p]\<rparr> in
      case write_fault w p of
        None \<Rightarrow> (Inr (), w'\<lparr>files := (files w)(p \<mapsto> content)\<rparr>)
      | Some k \<Rightarrow> (Inl (StreamError p), w'\<lparr>files := (files w)(p \<mapsto> take k content)\<rparr>))"

definition md5File :: "string \<Rightarrow> string io" where
  "md5File p w =
     (case files w p of
        None \<Rightarrow> (Inl (Error (''ENOENT: no such file or directory, open '' @ p)), w)
      | Some content \<Rightarrow> (Inr (md5 w content), w))"

section \<open>The client\<close>

subsection \<open>Paths, routes and requests\<close>

text \<open>\<^verbatim>\<open>path[path.length - 1] === '/'\<close>; on the empty string the read is \<^verbatim>\<open>undefined\<close>.\<close>

definition endsWithSlash :: "string \<Rightarrow> bool" where
  "endsWithSlash path = (if path = [] then False else last path = CHR ''/'')"

text \<open>
  \<^verbatim>\<open>if (path[path.length - 1] !== '/') { path = path + '/' }\<close>, the statement that opens
  \<^verbatim>\<open>getFolderInfo\<close>, \<^verbatim>\<open>createFolder\<close>, \<^verbatim>\<open>deleteFolder\<close> and (twice) \<^verbatim>\<open>moveItems\<close>.
\<close>

definition asDirectory :: "string \<Rightarrow> string" where
  "asDirectory path = (if endsWithSlash path then path else path @ ''/'')"

text \<open>\<^verbatim>\<open>s.substring(s.lastIndexOf('/') + 1)\<close>.\<close>

definition baseName :: "string \<Rightarrow> string" where
  "baseName s = rev (takeWhile (\<lambda>c. c \<noteq> CHR ''/'') (rev s))"

text \<open>The routes of \<^verbatim>\<open>ArtifactoryClient.API\<close> that the modelled methods use.\<close>

definition API_filePath :: "string \<Rightarrow> string" where
  "API_filePath path = ''/'' @ path"

definition API_getFileInfo :: "string \<Rightarrow> string" where
  "API_getFileInfo path = ''/api/storage/'' @ path"

definition API_downloadFolder :: "string \<Rightarrow> string \<Rightarrow> string" where
  "API_downloadFolder path archiveType =
     ''/api/archive/download/'' @ path @ ''?archiveType='' @ archiveType"

text \<open>The parameter \<^verbatim>\<open>dry = false\<close>: \<open>None\<close> is a \<^verbatim>\<open>dryrun\<close> the caller left out.\<close>

definition API_moveItem :: "string \<Rightarrow> string \<Rightarrow> bool option \<Rightarrow> string" where
  "API_moveItem srcPath dstPath dry =
     ''/api/move/'' @ srcPath @ ''?to=/'' @ dstPath @ ''?dry=''
       @ String_bool (case dry of None \<Rightarrow> False | Some b \<Rightarrow> b)"

record client =
  base_url :: string
  basicHttpAuth :: "string option"

text \<open>The constructor: \<^verbatim>\<open>this.url = url.replace(/\/$/, "")\<close>.\<close>

definition ArtifactoryClient :: "string \<Rightarrow> client" where
  "ArtifactoryClient u =
     \<lparr>base_url = (if endsWithSlash u then butlast u else u), basicHttpAuth = None\<rparr>"

definition getRequestOptions :: "client \<Rightarrow> (string \<times> string) list" where
  "getRequestOptions c =
     (case basicHttpAuth c of
        None \<Rightarrow> []
      | Some a \<Rightarrow> if a = [] then [] else [(''Authorization'', ''Basic '' @ a)])"

text \<open>
  The request \<^verbatim>\<open>_fetch(api, params, options)\<close> sends: the base URL followed by the route,
  the method of \<^verbatim>\<open>options\<close> (GET when it gives none), the common headers, the body.
\<close>

definition requestOf :: "client \<Rightarrow> string \<Rightarrow> http_method \<Rightarrow> body option \<Rightarrow> request" where
  "requestOf c route m b =
     \<lparr>r_url = base_url c @ route, r_method = m, r_headers = getRequestOptions c, r_body = b\<rparr>"

definition priv_fetch :: "client \<Rightarrow> string \<Rightarrow> http_method \<Rightarrow> body option \<Rightarrow> response io" where
  "priv_fetch c route m b = fetch (requestOf c route m b)"

subsection \<open>Storage queries\<close>

text \<open>
  \<^verbatim>\<open>getFileInfo\<close>. On a response that is not ok the source evaluates
  \<^verbatim>\<open>new Error(response.statusCode)\<close>, and \<^verbatim>\<open>response\<close> is bound nowhere.
\<close>

definition getFileInfo :: "client \<Rightarrow> string \<Rightarrow> json io" where
  "getFileInfo c path =
     await (priv_fetch c (API_getFileInfo path) GET None) (\<lambda>res.
       if \<not> ok res then throw (unbound ''response'')
       else res_json res)"

definition getFolderInfo :: "client \<Rightarrow> string \<Rightarrow> json io" where
  "getFolderInfo c path = getFileInfo c (asDirectory path)"

definition isPathExists :: "client \<Rightarrow> string \<Rightarrow> bool io" where
  "isPathExists c path =
     await (priv_fetch c (API_filePath path) HEAD None) (\<lambda>res. resolved (ok res))"

subsection \<open>Upload and download\<close>

text \<open>The test \<^verbatim>\<open>/^https?:\/\//i\<close>.\<close>

definition ci :: "char \<Rightarrow> char \<Rightarrow> char \<Rightarrow> bool" where
  "ci lower upper x = (x = lower \<or> x = upper)"

fun isRemoteUrl :: "string \<Rightarrow> bool" where
  "isRemoteUrl (h # t # t' # p # rest) =
     (ci CHR ''h'' CHR ''H'' h \<and> ci CHR ''t'' CHR ''T'' t \<and> ci CHR ''t'' CHR ''T'' t'
      \<and> ci CHR ''p'' CHR ''P'' p
      \<and> (take 3 rest = ''://''
         \<or> (case rest of [] \<Rightarrow> False | s # rest' \<Rightarrow> ci CHR ''s'' CHR ''S'' s \<and> take 3 rest' = ''://'')))"
| "isRemoteUrl s = False"

text \<open>
  \<^verbatim>\<open>isRemote ? fetch(fileToUpload) : fs.createReadStream(fileToUpload)\<close>. The remote
  fetch is the bare \<^verbatim>\<open>fetch\<close>: no base URL, no headers, and nobody awaits it.
\<close>

definition openSource :: "bool \<Rightarrow> string \<Rightarrow> world \<Rightarrow> body \<times> world" where
  "openSource isRemote fileToUpload w =
     (if isRemote
      then (RemoteFetch fileToUpload,
            w\<lparr>trace := trace w @
                 [Fetched \<lparr>r_url = fileToUpload, r_method = GET, r_headers = [], r_body = None\<rparr>]\<rparr>)
      else (FileStream fileToUpload, w\<lparr>trace := trace w @ [ReadStreamOpened fileToUpload]\<rparr>))"

definition uploadFile :: "client \<Rightarrow> string \<Rightarrow> string \<Rightarrow> bool \<Rightarrow> json io" where
  "uploadFile c path fileToUploadPath forceUpload w =
     (let isRemote = isRemoteUrl fileToUploadPath;
          fileToUpload = (if isRemote then fileToUploadPath else resolve w fileToUploadPath)
      in if \<not> isRemote \<and> \<not> existsSync w fileToUpload
         then throw (Error (''The file to upload '' @ fileToUpload @ '' does not exist'')) w
         else await (isPathExists c path) (\<lambda>fileExists.
                if fileExists \<and> \<not> forceUpload
                then throw (Error ''File already exists and forceUpload flag was not provided with a TRUE value.'')
                else (\<lambda>w1. case openSource isRemote fileToUpload w1 of (stream, w2) \<Rightarrow>
                       await (priv_fetch c (API_filePath path) PUT (Some stream)) (\<lambda>res.
                         if \<not> ok res
                         then throw (Error (''HTTP Status Code from server was: '' @ String_nat (status res)))
                         else res_json res) w2)) w)"

text \<open>
  \<^verbatim>\<open>downloadFile\<close>. The message of the checksum error starts with \<^verbatim>\<open>${ options.url }\<close>,
  and \<^verbatim>\<open>options\<close> is bound nowhere in the method: building the message throws.
\<close>

definition checksumMessage :: "string \<Rightarrow> json option \<Rightarrow> string \<Rightarrow> string" where
  "checksumMessage optionsUrl expected actual =
     ''Error downloading file '' @ optionsUrl
       @ ''. Checksum (MD5) validation failed. Expected: '' @ String_js expected
       @ '' - Actual downloaded: '' @ actual"

definition downloadFile :: "client \<Rightarrow> string \<Rightarrow> string \<Rightarrow> bool \<Rightarrow> unit io" where
  "downloadFile c path destinationFile checkFileIntegrity w =
     (let destinationPath = resolve w destinationFile
      in if \<not> existsSync w (dirname w destinationPath)
         then throw (Error (''The destination folder '' @ dirname w destinationPath @ '' does not exist.'')) w
         else await (priv_fetch c (API_filePath path) GET None) (\<lambda>res.
                if \<not> ok res
                then throw (Error (''Could not download file: '' @ String_nat (status res)))
                else await (pipeToFile (bodyText res) destinationPath) (\<lambda>u.
                  if checkFileIntegrity
                  then await (getFileInfo c path) (\<lambda>fileInfo.
                         await (md5File destinationPath) (\<lambda>checkSum.
                           await (sync (getProp (Some fileInfo) ''checksums'')) (\<lambda>checksums.
                             await (sync (getProp checksums ''md5'')) (\<lambda>expected.
                               if Some (JStr checkSum) \<noteq> expected
                               then await (throw (unbound ''options'')) (\<lambda>optionsUrl.
                                      throw (Error (checksumMessage optionsUrl expected checkSum)))
                               else resolved ()))))
                  else resolved ())) w)"

text \<open>\<^verbatim>\<open>downloadFolder\<close>; \<open>None\<close> is an \<^verbatim>\<open>archiveType\<close> left out, which defaults to \<^verbatim>\<open>'zip'\<close>.\<close>

definition downloadFolder :: "client \<Rightarrow> string \<Rightarrow> string \<Rightarrow> string option \<Rightarrow> unit io" where
  "downloadFolder c path destinationFile archiveType w =
     (let destinationPath = resolve w destinationFile
      in if \<not> existsSync w (dirname w destinationPath)
         then throw (Error (''The destination folder '' @ dirname w destinationPath @ '' does not exist.'')) w
         else await (priv_fetch c
                       (API_downloadFolder path (case archiveType of None \<Rightarrow> ''zip'' | Some a \<Rightarrow> a))
                       GET None)
                (\<lambda>res. pipeToFile (bodyText res) destinationPath) w)"

subsection \<open>Folders and deletion\<close>

definition res_text :: "response \<Rightarrow> string io" where
  "res_text res = resolved (bodyText res)"

definition createFolder :: "client \<Rightarrow> string \<Rightarrow> string io" where
  "createFolder c path =
     await (priv_fetch c (API_filePath (asDirectory path)) PUT None) (\<lambda>res.
       if \<not> ok res then throw (Error (''Could not create folder: '' @ String_nat (status res)))
       else res_text res)"

definition priv_deletePath :: "client \<Rightarrow> string \<Rightarrow> string io" where
  "priv_deletePath c path =
     await (priv_fetch c (API_filePath path) DELETE None) (\<lambda>res.
       if \<not> ok res then throw (Error (String_nat (status res)))
       else res_text res)"


definition deleteFile :: "client \<Rightarrow> string \<Rightarrow> string io" where
  "deleteFile c path = priv_deletePath c path"

subsection \<open>Relocation\<close>

definition priv_moveItem :: "client \<Rightarrow> string \<Rightarrow> string \<Rightarrow> bool option \<Rightarrow> string io" where
  "priv_moveItem c srcPath dstPath dryrun =
     await (priv_fetch c (API_moveItem srcPath dstPath dryrun) POST None) (\<lambda>res.
       if \<not> ok res then throw (Error (String_nat (status res)))
       else res_text res)"

definition moveItem :: "client \<Rightarrow> string \<Rightarrow> string \<Rightarrow> bool option \<Rightarrow> string io" where
  "moveItem c srcPath dstPath dryrun =
     await (if endsWithSlash dstPath then tryIgnore (createFolder c dstPath) else resolved ())
       (\<lambda>u. priv_moveItem c srcPath dstPath dryrun)"

text \<open>\<^verbatim>\<open>xs.filter(cb)\<close> with a callback that may throw: the first throw ends the filter.\<close>

fun filterE :: "('a \<Rightarrow> error + bool) \<Rightarrow> 'a list \<Rightarrow> error + 'a list" where
  "filterE f [] = Inr []"
| "filterE f (x # xs) =
     (case f x of
        Inl e \<Rightarrow> Inl e
      | Inr b \<Rightarrow> (case filterE f xs of Inl e \<Rightarrow> Inl e | Inr ys \<Rightarrow> Inr (if b then x # ys else ys)))"

text \<open>\<^verbatim>\<open>v.filter(cb)\<close> on a truthy value: only an array has the method.\<close>

definition arrayFilter :: "json option \<Rightarrow> (json \<Rightarrow> error + bool) \<Rightarrow> error + json list" where
  "arrayFilter v cb =
     (case v of
        Some (JArr xs) \<Rightarrow> filterE cb xs
      | _ \<Rightarrow> Inl (TypeError ''result.children.filter is not a function''))"

text \<open>
  The first callback of \<^verbatim>\<open>moveItems\<close>, \<^verbatim>\<open>i => !item.folder && item.uri\<close>. Its parameter is
  \<^verbatim>\<open>i\<close>; the body reads \<^verbatim>\<open>item\<close>, which no enclosing scope binds.
\<close>

definition isCandidate :: "json \<Rightarrow> error + bool" where
  "isCandidate i =
     (case (Inl (unbound ''item'') :: error + json option) of
        Inl e \<Rightarrow> Inl e
      | Inr item \<Rightarrow>
          (case getProp item ''folder'' of
             Inl e \<Rightarrow> Inl e
           | Inr folder \<Rightarrow>
               if truthy folder then Inr False
               else (case getProp item ''uri'' of Inl e \<Rightarrow> Inl e | Inr uri \<Rightarrow> Inr (truthy uri))))"

text \<open>
  The second callback,
  \<^verbatim>\<open>item => (!filterCb || filterCb(item.uri.substring(item.uri.lastIndexOf('/') + 1)))\<close>;
  \<open>None\<close> is a \<^verbatim>\<open>filterCb\<close> the caller left out. On a \<^verbatim>\<open>uri\<close> that is no string the
  call throws: the read of \<^verbatim>\<open>substring\<close> comes first and throws on \<^verbatim>\<open>undefined\<close> and
  \<^verbatim>\<open>null\<close>; then the argument is evaluated, and only an array has \<^verbatim>\<open>lastIndexOf\<close>; an
  array in turn has no \<^verbatim>\<open>substring\<close>.
\<close>

definition passesFilter :: "(string \<Rightarrow> bool) option \<Rightarrow> json \<Rightarrow> error + bool" where
  "passesFilter filterCb item =
     (case filterCb of
        None \<Rightarrow> Inr True
      | Some cb \<Rightarrow>
          (case getProp (Some item) ''uri'' of
             Inl e \<Rightarrow> Inl e
           | Inr (Some (JStr s)) \<Rightarrow> Inr (cb (baseName s))
           | Inr uri \<Rightarrow>
               (case getProp uri ''substring'' of
                  Inl e \<Rightarrow> Inl e
                | Inr m \<Rightarrow>
                    (case uri of
                       Some (JArr xs) \<Rightarrow> Inl (TypeError ''item.uri.substring is not a function'')
                     | _ \<Rightarrow> Inl (TypeError ''item.uri.lastIndexOf is not a function'')))))"

text \<open>
  \<^verbatim>\<open>xs.map(cb)\<close> where \<open>cb\<close> starts an async call: the calls start in list order, each
  sending its request at once, and the list of their outcomes is the list of promises.
  A callback that throws before it starts its call ends the map.
\<close>

fun mapStart :: "('a \<Rightarrow> error + 'b io) \<Rightarrow> 'a list \<Rightarrow> ((error + 'b) list) io" where
  "mapStart f [] w = (Inr [], w)"
| "mapStart f (x # xs) w =
     (case f x of
        Inl e \<Rightarrow> (Inl e, w)
      | Inr m \<Rightarrow>
          (case m w of (p, w') \<Rightarrow>
             (case mapStart f xs w' of
                (Inl e, w'') \<Rightarrow> (Inl e, w'')
              | (Inr ps, w'') \<Rightarrow> (Inr (p # ps), w''))))"

text \<open>
  \<^verbatim>\<open>Promise.all(promises)\<close>: the list of values when every promise resolves, and
  otherwise the reason of the promise that rejects first, which the world's \<open>race\<close>
  picks among the rejecting ones.
\<close>

definition Promise_all :: "(error + 'b) list \<Rightarrow> ('b list) io" where
  "Promise_all ps w =
     (let bad = filter (\<lambda>i. isl (ps ! i)) [0..<length ps]
      in if bad = [] then (Inr (map projr ps), w)
         else (Inl (projl (ps ! (if race w bad \<in> set bad then race w bad else hd bad))), w))"

definition startMove :: "client \<Rightarrow> string \<Rightarrow> string \<Rightarrow> bool option \<Rightarrow> json \<Rightarrow> error + string io" where
  "startMove c srcPath dstPath dryrun item =
     (case getProp (Some item) ''uri'' of
        Inl e \<Rightarrow> Inl e
      | Inr uri \<Rightarrow> Inr (priv_moveItem c (srcPath @ String_js uri) dstPath dryrun))"

text \<open>
  \<^verbatim>\<open>moveItems\<close>. Between the two filters and the map stands a \<^verbatim>\<open>console.log\<close> whose
  template reads \<^verbatim>\<open>totalToMove.length\<close>, and \<^verbatim>\<open>totalToMove\<close> is bound nowhere. What
  \<^verbatim>\<open>console.log\<close> prints is not part of the world.
\<close>

definition moveItems ::
  "client \<Rightarrow> string \<Rightarrow> (string \<Rightarrow> bool) option \<Rightarrow> string \<Rightarrow> bool option \<Rightarrow> unit io" where
  "moveItems c srcPath0 filterCb dstPath0 dryrun =
     (let srcPath = asDirectory srcPath0; dstPath = asDirectory dstPath0
      in await (getFolderInfo c srcPath) (\<lambda>result.
           await (sync (getProp (Some result) ''children'')) (\<lambda>children.
             if \<not> truthy children then throw (Error (''No files in '' @ srcPath))
             else await (tryIgnore (createFolder c dstPath)) (\<lambda>u.
               await (sync (arrayFilter children isCandidate)) (\<lambda>allItems.
                 await (sync (filterE (passesFilter filterCb) allItems)) (\<lambda>filesToMove.
                   await (throw (unbound ''totalToMove'') :: json option io) (\<lambda>totalToMove.
                     await (mapStart (startMove c srcPath dstPath dryrun) filesToMove) (\<lambda>promises.
                       await (Promise_all promises) (\<lambda>vs. resolved ())))))))))"

section \<open>Reading a query string\<close>

text \<open>
  What a server reads off a request URL: the query is what follows the first \<^verbatim>\<open>?\<close>, its
  parameters are separated by \<^verbatim>\<open>&\<close>, and each is a name and a value separated by its
  first \<^verbatim>\<open>=\<close>. This is the reading against which the parameters of the move route are
  stated; it is not part of the client.
\<close>

fun splitOn :: "char \<Rightarrow> string \<Rightarrow> string list" where
  "splitOn d [] = [[]]"
| "splitOn d (x # xs) =
     (if x = d then [] # splitOn d xs
      else (case splitOn d xs of [] \<Rightarrow> [[x]] | y # ys \<Rightarrow> (x # y) # ys))"

definition afterFirst :: "char \<Rightarrow> string \<Rightarrow> string" where
  "afterFirst d s = drop 1 (dropWhile (\<lambda>c. c \<noteq> d) s)"

definition beforeFirst :: "char \<Rightarrow> string \<Rightarrow> string" where
  "beforeFirst d s = takeWhile (\<lambda>c. c \<noteq> d) s"

definition queryParams :: "string \<Rightarrow> (string \<times> string) list" where
  "queryParams u =
     (if CHR ''?'' \<in> set u
      then map (\<lambda>kv. (beforeFirst CHR ''='' kv, afterFirst CHR ''='' kv)) (splitOn CHR ''&'' (afterFirst CHR ''?'' u))
      else [])"

section \<open>Example worlds\<close>

text \<open>
  Concrete clients, servers and file systems on which the theorems below are run. The
  local paths resolve under \<^verbatim>\<open>/tmp\<close>, which is the one directory that exists.
\<close>

definition demoClient :: client where
  "demoClient = ArtifactoryClient ''http://host/artifactory/''"

definition reply :: "bool \<Rightarrow> nat \<Rightarrow> string \<Rightarrow> json option \<Rightarrow> fetch_result" where
  "reply isOk s t j = Response \<lparr>ok = isOk, status = s, bodyText = t, bodyJson = j\<rparr>"

definition demoWorld ::
  "(event list \<Rightarrow> request \<Rightarrow> fetch_result) \<Rightarrow> (string \<rightharpoonup> string) \<Rightarrow> world" where
  "demoWorld srv fs =
     \<lparr>server = srv, files = fs, dirs = {''/tmp''},
      resolve = (\<lambda>p. ''/tmp/'' @ p),
      dirname = (\<lambda>p. rev (drop 1 (dropWhile (\<lambda>c. c \<noteq> CHR ''/'') (rev p)))),
      md5 = (\<lambda>content. ''md5:'' @ content),
      write_fault = (\<lambda>p. None), race = hd, trace = []\<rparr>"

text \<open>A server on which creating a folder fails and everything else succeeds.\<close>

definition serverFolderConflict :: "event list \<Rightarrow> request \<Rightarrow> fetch_result" where
  "serverFolderConflict h r =
     (if r_method r = PUT then reply False 409 ''conflict'' None else reply True 200 ''moved'' None)"

text \<open>A server that answers every request with the same response.\<close>

definition serverAlways :: "fetch_result \<Rightarrow> event list \<Rightarrow> request \<Rightarrow> fetch_result" where
  "serverAlways a h r = a"

text \<open>A server whose storage route answers with the given folder info.\<close>

definition serverListing :: "json \<Rightarrow> event list \<Rightarrow> request \<Rightarrow> fetch_result" where
  "serverListing info h r =
     (if r_method r = GET then reply True 200 [] (Some info) else reply True 201 ''ok'' None)"

definition fileEntry :: "string \<Rightarrow> json" where
  "fileEntry u = JObj [(''uri'', JStr u), (''folder'', JBool False)]"

definition threeFiles :: json where
  "threeFiles = JObj [(''uri'', JStr ''http://host/artifactory/api/storage/src''),
                      (''children'', JArr [fileEntry ''/a.zip'', fileEntry ''/b.txt'', fileEntry ''/c.zip''])]"

definition endsWithZip :: "string \<Rightarrow> bool" where
  "endsWithZip name = (4 \<le> length name \<and> drop (length name - 4) name = ''.zip'')"

text \<open>
  A server that delivers the bytes \<^verbatim>\<open>hello\<close> for a file and reports a digest for it
  that is not the digest of those bytes.
\<close>

definition serverWrongDigest :: "event list \<Rightarrow> request \<Rightarrow> fetch_result" where
  "serverWrongDigest h r =
     (if r_url r = ''http://host/artifactory/api/storage/repo/a.txt''
      then reply True 200 [] (Some (JObj [(''checksums'', JObj [(''md5'', JStr ''md5:other'')])]))
      else reply True 200 ''hello'' None)"

section \<open>Observations on paths and traces\<close>


text \<open>The move requests of a trace: the requests sent with POST, oldest first.\<close>

fun moveRequests :: "event list \<Rightarrow> request list" where
  "moveRequests [] = []"
| "moveRequests (Fetched r # es) = (if r_method r = POST then r # moveRequests es else moveRequests es)"
| "moveRequests (e # es) = moveRequests es"

section \<open>Shared lemmas\<close>

lemmas io_defs = await_def throw_def resolved_def sync_def tryIgnore_def fetch_def priv_fetch_def
  res_json_def res_text_def

lemmas route_defs = API_filePath_def API_getFileInfo_def API_downloadFolder_def API_moveItem_def
  requestOf_def getRequestOptions_def

lemmas demo_defs = demoClient_def ArtifactoryClient_def demoWorld_def reply_def endsWithSlash_def
  asDirectory_def existsSync_def

lemma await_throw: "await (throw e) f = throw e"
  by (rule ext) (simp add: await_def throw_def)

lemma fetch_world: "snd (fetch req w) = w\<lparr>trace := trace w @ [Fetched req]\<rparr>"
  by (simp add: fetch_def split: fetch_result.splits)

lemma fetch_Response:
  "server w (trace w) req = Response res \<Longrightarrow>
   fetch req w = (Inr res, w\<lparr>trace := trace w @ [Fetched req]\<rparr>)"
  by (simp add: fetch_def)

lemma createFolder_world:
  "snd (createFolder c path w) =
     w\<lparr>trace := trace w @ [Fetched (requestOf c (API_filePath (asDirectory path)) PUT None)]\<rparr>"
  by (simp add: createFolder_def io_defs split: fetch_result.splits)

lemma getFileInfo_world:
  "snd (getFileInfo c path w) =
     w\<lparr>trace := trace w @ [Fetched (requestOf c (API_getFileInfo path) GET None)]\<rparr>"
  by (simp add: getFileInfo_def io_defs split: fetch_result.splits option.splits)


lemma priv_moveItem_world:
  "snd (priv_moveItem c s d dry w) =
     w\<lparr>trace := trace w @ [Fetched (requestOf c (API_moveItem s d dry) POST None)]\<rparr>"
  by (simp add: priv_moveItem_def io_defs split: fetch_result.splits)

lemma asDirectory_slash: "endsWithSlash p \<Longrightarrow> asDirectory p = p"
  by (simp add: asDirectory_def)


lemma endsWithSlash_asDirectory: "endsWithSlash (asDirectory p)"
  by (simp add: asDirectory_def endsWithSlash_def)

lemma asDirectory_idem: "asDirectory (asDirectory p) = asDirectory p"
  by (simp add: asDirectory_slash endsWithSlash_asDirectory)

text \<open>
  No call of \<^verbatim>\<open>moveItems\<close> gets past the read of \<^verbatim>\<open>totalToMove\<close>, so the map and the
  \<^verbatim>\<open>Promise.all\<close> behind it never run.
\<close>

lemma moveItems_reaches:
  "moveItems c srcPath0 filterCb dstPath0 dryrun =
     await (getFolderInfo c (asDirectory srcPath0)) (\<lambda>result.
       await (sync (getProp (Some result) ''children'')) (\<lambda>children.
         if \<not> truthy children then throw (Error (''No files in '' @ asDirectory srcPath0))
         else await (tryIgnore (createFolder c (asDirectory dstPath0))) (\<lambda>u.
           await (sync (arrayFilter children isCandidate)) (\<lambda>allItems.
             await (sync (filterE (passesFilter filterCb) allItems)) (\<lambda>filesToMove.
               throw (unbound ''totalToMove''))))))"
  by (simp add: moveItems_def Let_def await_throw cong: if_cong)

text \<open>
  What a call of \<^verbatim>\<open>moveItems\<close> does to the world: it rejects, having sent the listing
  request alone or the listing request and the request that creates the destination.
\<close>

lemma moveItems_outcome:
  "(\<exists>e. moveItems c p cb q dry w =
          (Inl e, w\<lparr>trace := trace w @
                    [Fetched (requestOf c (API_getFileInfo (asDirectory p)) GET None)]\<rparr>))
   \<or> (\<exists>e. moveItems c p cb q dry w =
          (Inl e, w\<lparr>trace := trace w @
                    [Fetched (requestOf c (API_getFileInfo (asDirectory p)) GET None),
                     Fetched (requestOf c (API_filePath (asDirectory q)) PUT None)]\<rparr>))"
proof -
  let ?w1 = "w\<lparr>trace := trace w @ [Fetched (requestOf c (API_getFileInfo (asDirectory p)) GET None)]\<rparr>"
  let ?w2 = "?w1\<lparr>trace := trace ?w1 @ [Fetched (requestOf c (API_filePath (asDirectory q)) PUT None)]\<rparr>"
  obtain r where r: "getFolderInfo c (asDirectory p) w = (r, ?w1)"
    using getFileInfo_world [of c "asDirectory p" w]
    by (cases "getFileInfo c (asDirectory p) w") (simp add: getFolderInfo_def asDirectory_idem)
  have cf: "snd (createFolder c (asDirectory q) ?w1) = ?w2"
    by (simp add: createFolder_world asDirectory_idem)
  show ?thesis
    unfolding moveItems_reaches
    using r cf
    by (cases r) (auto simp: await_def sync_def throw_def tryIgnore_def split: sum.splits)
qed


lemma moveRequests_append: "moveRequests (xs @ ys) = moveRequests xs @ moveRequests ys"
  by (induction xs rule: moveRequests.induct) simp_all

text \<open>
  \<^verbatim>\<open>moveItem\<close> on a destination that ends with the separator: the request that creates
  the folder is sent, its outcome is dropped, and the call goes on as \<^verbatim>\<open>_moveItem\<close>.
\<close>

lemma moveItem_sequence:
  assumes "endsWithSlash dstPath"
  shows "moveItem c srcPath dstPath dryrun w =
           priv_moveItem c srcPath dstPath dryrun
             (w\<lparr>trace := trace w @ [Fetched (requestOf c (API_filePath dstPath) PUT None)]\<rparr>)"
proof -
  let ?w1 = "w\<lparr>trace := trace w @ [Fetched (requestOf c (API_filePath dstPath) PUT None)]\<rparr>"
  have created: "snd (createFolder c dstPath w) = ?w1"
    using assms by (simp add: createFolder_world asDirectory_slash)
  show ?thesis
    using assms created by (simp add: moveItem_def await_def tryIgnore_def)
qed



section \<open>The claims\<close>

text \<open>
  Claim C1 against the source. On the listing \<^verbatim>\<open>[a.zip, b.txt, c.zip]\<close> the first filter
  of \<^verbatim>\<open>moveItems\<close> reads the unbound \<^verbatim>\<open>item\<close> at the first child: the call rejects with
  a ReferenceError, with the predicate and without it, and sends no move request.
\<close>

theorem moveItems_zip_listing_throws:
  "fst (moveItems demoClient ''src/'' (Some endsWithZip) ''dst/'' None
          (demoWorld (serverListing threeFiles) Map.empty))
     = Inl (ReferenceError ''item is not defined'')
   \<and> fst (moveItems demoClient ''src/'' None ''dst/'' None
          (demoWorld (serverListing threeFiles) Map.empty))
     = Inl (ReferenceError ''item is not defined'')
   \<and> moveRequests (trace (snd (moveItems demoClient ''src/'' (Some endsWithZip) ''dst/'' None
          (demoWorld (serverListing threeFiles) Map.empty)))) = []"
  by (simp add: moveItems_reaches getFolderInfo_def getFileInfo_def createFolder_def io_defs route_defs
        demo_defs serverListing_def arrayFilter_def unbound_def threeFiles_def isCandidate_def)

text \<open>
  Claim C2 against the source. The move route joins the dry-run flag to the destination
  with a second \<^verbatim>\<open>?\<close>, not with \<^verbatim>\<open>&\<close>: the query of the request has the one parameter
  \<^verbatim>\<open>to\<close>, whose value ends with \<^verbatim>\<open>?dry=true\<close>, and no parameter \<^verbatim>\<open>dry\<close>.
\<close>

theorem moveItem_route_dry_not_a_parameter:
  "API_moveItem ''repo/a.txt'' ''repo/b.txt'' (Some True) = ''/api/move/repo/a.txt?to=/repo/b.txt?dry=true''
   \<and> queryParams (API_moveItem ''repo/a.txt'' ''repo/b.txt'' (Some True))
       = [(''to'', ''/repo/b.txt?dry=true'')]
   \<and> map_of (queryParams (API_moveItem ''repo/a.txt'' ''repo/b.txt'' (Some True))) ''dry'' = None"
  by (simp add: API_moveItem_def String_bool_def queryParams_def afterFirst_def beforeFirst_def)

text \<open>
  Claim C3 against the source. \<^verbatim>\<open>moveItem\<close> of \<^verbatim>\<open>repo/a.txt\<close> to \<^verbatim>\<open>repo/dir/\<close>, on a
  server that refuses to create the folder: the creation request is sent first, its
  failure is dropped, and exactly one move request follows. That request does not carry
  the destination: the route joins the dry-run flag with a second \<^verbatim>\<open>?\<close>, so its one
  parameter is \<^verbatim>\<open>to\<close> with the value \<^verbatim>\<open>/repo/dir/?dry=false\<close>, which is not the given
  destination and does not end with the separator.
\<close>

theorem moveItem_directory_destination_not_carried:
  "fst (moveItem demoClient ''repo/a.txt'' ''repo/dir/'' None (demoWorld serverFolderConflict Map.empty))
     = Inr ''moved''
   \<and> trace (snd (moveItem demoClient ''repo/a.txt'' ''repo/dir/'' None
                    (demoWorld serverFolderConflict Map.empty)))
     = [Fetched \<lparr>r_url = ''http://host/artifactory/repo/dir/'', r_method = PUT,
                 r_headers = [], r_body = None\<rparr>,
        Fetched \<lparr>r_url = ''http://host/artifactory/api/move/repo/a.txt?to=/repo/dir/?dry=false'',
                 r_method = POST, r_headers = [], r_body = None\<rparr>]
   \<and> map (\<lambda>r. queryParams (r_url r))
         (moveRequests (trace (snd (moveItem demoClient ''repo/a.txt'' ''repo/dir/'' None
                                      (demoWorld serverFolderConflict Map.empty)))))
     = [[(''to'', ''/repo/dir/?dry=false'')]]
   \<and> \<not> endsWithSlash ''/repo/dir/?dry=false''"
proof -
  have h: "endsWithSlash ''repo/dir/''"
    by (simp add: endsWithSlash_def)
  have run: "moveItem demoClient ''repo/a.txt'' ''repo/dir/'' None (demoWorld serverFolderConflict Map.empty)
      = (Inr ''moved'',
         (demoWorld serverFolderConflict Map.empty)
           \<lparr>trace := [Fetched \<lparr>r_url = ''http://host/artifactory/repo/dir/'', r_method = PUT,
                               r_headers = [], r_body = None\<rparr>,
                      Fetched \<lparr>r_url = ''http://host/artifactory/api/move/repo/a.txt?to=/repo/dir/?dry=false'',
                               r_method = POST, r_headers = [], r_body = None\<rparr>]\<rparr>)"
    by (simp add: moveItem_sequence [OF h] priv_moveItem_def io_defs route_defs demoClient_def
          ArtifactoryClient_def demoWorld_def serverFolderConflict_def reply_def String_bool_def
          endsWithSlash_def)
  have q: "queryParams ''http://host/artifactory/api/move/repo/a.txt?to=/repo/dir/?dry=false''
             = [(''to'', ''/repo/dir/?dry=false'')]"
    by (simp add: queryParams_def afterFirst_def beforeFirst_def)
  show ?thesis
    by (simp add: run q endsWithSlash_def)
qed

text \<open>
  Claim C4. An \<^verbatim>\<open>uploadFile\<close> without \<^verbatim>\<open>forceUpload\<close>, whose source passes the local
  check and whose existence probe is answered ok, fails with the error that the file
  already exists. The probe is the only entry it adds to the trace: no source stream is
  opened and no upload request is sent.
\<close>

theorem uploadFile_existing_not_overwritten:
  assumes "isRemoteUrl fileToUploadPath \<or> existsSync w (resolve w fileToUploadPath)"
    and "server w (trace w) (requestOf c (API_filePath path) HEAD None) = Response res"
    and "ok res"
  shows "uploadFile c path fileToUploadPath False w =
           (Inl (Error ''File already exists and forceUpload flag was not provided with a TRUE value.''),
            w\<lparr>trace := trace w @ [Fetched (requestOf c (API_filePath path) HEAD None)]\<rparr>)"
proof -
  have probe: "isPathExists c path w =
                 (Inr True, w\<lparr>trace := trace w @ [Fetched (requestOf c (API_filePath path) HEAD None)]\<rparr>)"
    using assms(2,3) by (simp add: isPathExists_def priv_fetch_def await_def fetch_Response resolved_def)
  show ?thesis
    using assms(1) probe by (auto simp: uploadFile_def Let_def await_def throw_def)
qed

text \<open>Claim C4, run on an example world.\<close>

theorem uploadFile_existing_not_overwritten_witness:
  "existsSync (demoWorld (serverAlways (reply True 200 [] None)) [''/tmp/a.bin'' \<mapsto> ''data''])
     (resolve (demoWorld (serverAlways (reply True 200 [] None)) [''/tmp/a.bin'' \<mapsto> ''data'']) ''a.bin'')
   \<and> fst (uploadFile demoClient ''repo/a.bin'' ''a.bin'' False
            (demoWorld (serverAlways (reply True 200 [] None)) [''/tmp/a.bin'' \<mapsto> ''data'']))
       = Inl (Error ''File already exists and forceUpload flag was not provided with a TRUE value.'')
   \<and> trace (snd (uploadFile demoClient ''repo/a.bin'' ''a.bin'' False
            (demoWorld (serverAlways (reply True 200 [] None)) [''/tmp/a.bin'' \<mapsto> ''data''])))
       = [Fetched \<lparr>r_url = ''http://host/artifactory/repo/a.bin'', r_method = HEAD,
                   r_headers = [], r_body = None\<rparr>]"
proof -
  let ?w = "demoWorld (serverAlways (reply True 200 [] None)) [''/tmp/a.bin'' \<mapsto> ''data'']"
  have h1: "isRemoteUrl ''a.bin'' \<or> existsSync ?w (resolve ?w ''a.bin'')"
    by (simp add: demoWorld_def existsSync_def)
  have h2: "server ?w (trace ?w) (requestOf demoClient (API_filePath ''repo/a.bin'') HEAD None)
              = Response \<lparr>ok = True, status = 200, bodyText = [], bodyJson = None\<rparr>"
    by (simp add: demoWorld_def serverAlways_def reply_def)
  have h3: "ok \<lparr>ok = True, status = 200, bodyText = [], bodyJson = None\<rparr>"
    by simp
  from uploadFile_existing_not_overwritten [OF h1 h2 h3] h1
  show ?thesis
    by (simp add: demoWorld_def demoClient_def ArtifactoryClient_def route_defs endsWithSlash_def)
qed

text \<open>
  Claim C5 against the source. On a listing whose \<^verbatim>\<open>children\<close> is the empty array the
  guard \<^verbatim>\<open>!result.children\<close> does not fire, an array being truthy: the request that
  creates the destination is sent, and the call rejects with the ReferenceError of
  reading \<^verbatim>\<open>totalToMove\<close>, not with \<^verbatim>\<open>No files in\<close> the source directory.
\<close>

theorem moveItems_empty_listing_not_rejected:
  "fst (moveItems demoClient ''src'' None ''dst'' None
          (demoWorld (serverListing (JObj [(''children'', JArr [])])) Map.empty))
     = Inl (ReferenceError ''totalToMove is not defined'')
   \<and> trace (snd (moveItems demoClient ''src'' None ''dst'' None
          (demoWorld (serverListing (JObj [(''children'', JArr [])])) Map.empty)))
     = [Fetched \<lparr>r_url = ''http://host/artifactory/api/storage/src/'', r_method = GET,
                 r_headers = [], r_body = None\<rparr>,
        Fetched \<lparr>r_url = ''http://host/artifactory/dst/'', r_method = PUT,
                 r_headers = [], r_body = None\<rparr>]"
  by (simp add: moveItems_reaches getFolderInfo_def getFileInfo_def createFolder_def io_defs route_defs
        demo_defs serverListing_def arrayFilter_def unbound_def)

text \<open>
  Claim C6 against the source. When the digest the server reports differs from the digest
  of the downloaded file, \<^verbatim>\<open>downloadFile\<close> rejects with the ReferenceError of reading
  \<^verbatim>\<open>options\<close>, not with an error that carries the two digests. The file stays in place.
\<close>

theorem downloadFile_mismatch_throws_ReferenceError:
  "md5 (demoWorld serverWrongDigest Map.empty) ''hello'' \<noteq> ''md5:other''
   \<and> fst (downloadFile demoClient ''repo/a.txt'' ''a.txt'' True (demoWorld serverWrongDigest Map.empty))
       = Inl (ReferenceError ''options is not defined'')
   \<and> files (snd (downloadFile demoClient ''repo/a.txt'' ''a.txt'' True (demoWorld serverWrongDigest Map.empty)))
        ''/tmp/a.txt'' = Some ''hello''"
  by (simp add: downloadFile_def Let_def getFileInfo_def pipeToFile_def md5File_def io_defs route_defs
        demo_defs serverWrongDigest_def unbound_def)

text \<open>
  Claim C7 against the source. No call of \<^verbatim>\<open>moveItems\<close> resolves and none sends a move
  request, whatever the server answers: a batch in which no move fails is still rejected.
\<close>

theorem moveItems_never_resolves:
  "isl (fst (moveItems c srcPath filterCb dstPath dryrun w))
   \<and> moveRequests (trace (snd (moveItems c srcPath filterCb dstPath dryrun w))) = moveRequests (trace w)"
  using moveItems_outcome [of c srcPath filterCb dstPath dryrun w]
  by (auto simp: moveRequests_append requestOf_def)

text \<open>
  Claim C8. A \<^verbatim>\<open>downloadFile\<close> whose GET is answered with a status that is not ok fails
  with the download error that carries this status. The GET is the only entry it adds to
  the trace and the file system is as before: the write stream is not opened, so the
  destination file is neither created nor changed.
\<close>

theorem downloadFile_rejected_status:
  assumes "existsSync w (dirname w (resolve w destinationFile))"
    and "server w (trace w) (requestOf c (API_filePath path) GET None) = Response res"
    and "\<not> ok res"
  shows "downloadFile c path destinationFile checkFileIntegrity w =
           (Inl (Error (''Could not download file: '' @ String_nat (status res))),
            w\<lparr>trace := trace w @ [Fetched (requestOf c (API_filePath path) GET None)]\<rparr>)"
  using assms
  by (simp add: downloadFile_def Let_def await_def priv_fetch_def fetch_Response throw_def)

text \<open>Claim C8, run on an example world.\<close>

theorem downloadFile_rejected_status_witness:
  "existsSync (demoWorld (serverAlways (reply False 404 ''not found'' None)) Map.empty)
     (dirname (demoWorld (serverAlways (reply False 404 ''not found'' None)) Map.empty)
        (resolve (demoWorld (serverAlways (reply False 404 ''not found'' None)) Map.empty) ''a.txt''))
   \<and> fst (downloadFile demoClient ''repo/a.txt'' ''a.txt'' True
            (demoWorld (serverAlways (reply False 404 ''not found'' None)) Map.empty))
       = Inl (Error ''Could not download file: 404'')
   \<and> files (snd (downloadFile demoClient ''repo/a.txt'' ''a.txt'' True
            (demoWorld (serverAlways (reply False 404 ''not found'' None)) Map.empty))) ''/tmp/a.txt''
       = None
   \<and> trace (snd (downloadFile demoClient ''repo/a.txt'' ''a.txt'' True
            (demoWorld (serverAlways (reply False 404 ''not found'' None)) Map.empty)))
       = [Fetched \<lparr>r_url = ''http://host/artifactory/repo/a.txt'', r_method = GET,
                   r_headers = [], r_body = None\<rparr>]"
proof -
  let ?w = "demoWorld (serverAlways (reply False 404 ''not found'' None)) Map.empty"
  have h1: "existsSync ?w (dirname ?w (resolve ?w ''a.txt''))"
    by (simp add: demoWorld_def existsSync_def)
  have h2: "server ?w (trace ?w) (requestOf demoClient (API_filePath ''repo/a.txt'') GET None)
              = Response \<lparr>ok = False, status = 404, bodyText = ''not found'', bodyJson = None\<rparr>"
    by (simp add: demoWorld_def serverAlways_def reply_def)
  have h3: "\<not> ok \<lparr>ok = False, status = 404, bodyText = ''not found'', bodyJson = None\<rparr>"
    by simp
  have s: "String_nat 404 = ''404''"
    by (simp add: String_nat.simps digit_def)
  from downloadFile_rejected_status [OF h1 h2 h3, of True] h1 s
  show ?thesis
    by (simp add: demoWorld_def demoClient_def ArtifactoryClient_def route_defs endsWithSlash_def)
qed



text \<open>
  Claim C10. \<^verbatim>\<open>downloadFolder\<close> never looks at the status of the response: whatever
  response the server gives, ok or not, its body is streamed into the destination file
  and the call resolves.
\<close>

theorem downloadFolder_ignores_status:
  assumes "existsSync w (dirname w (resolve w destinationFile))"
    and "server w (trace w)
           (requestOf c (API_downloadFolder path (case archiveType of None \<Rightarrow> ''zip'' | Some a \<Rightarrow> a)) GET None)
         = Response res"
    and "write_fault w (resolve w destinationFile) = None"
  shows "fst (downloadFolder c path destinationFile archiveType w) = Inr ()
       \<and> files (snd (downloadFolder c path destinationFile archiveType w))
           = (files w)(resolve w destinationFile \<mapsto> bodyText res)
       \<and> trace (snd (downloadFolder c path destinationFile archiveType w))
           = trace w @
             [Fetched (requestOf c (API_downloadFolder path (case archiveType of None \<Rightarrow> ''zip'' | Some a \<Rightarrow> a))
                         GET None),
              WriteStreamOpened (resolve w destinationFile)]"
  using assms
  by (simp add: downloadFolder_def Let_def await_def priv_fetch_def fetch_Response pipeToFile_def)

text \<open>Claim C10, run on an example world.\<close>

theorem downloadFolder_ignores_status_witness:
  "\<not> ok \<lparr>ok = False, status = 500, bodyText = ''Internal Server Error'', bodyJson = None\<rparr>
   \<and> fst (downloadFolder demoClient ''repo/dir'' ''dir.zip'' None
            (demoWorld (serverAlways (reply False 500 ''Internal Server Error'' None)) Map.empty))
       = Inr ()
   \<and> files (snd (downloadFolder demoClient ''repo/dir'' ''dir.zip'' None
            (demoWorld (serverAlways (reply False 500 ''Internal Server Error'' None)) Map.empty)))
         ''/tmp/dir.zip''
       = Some ''Internal Server Error''"
proof -
  let ?w = "demoWorld (serverAlways (reply False 500 ''Internal Server Error'' None)) Map.empty"
  have h1: "existsSync ?w (dirname ?w (resolve ?w ''dir.zip''))"
    by (simp add: demoWorld_def existsSync_def)
  have h2: "server ?w (trace ?w)
              (requestOf demoClient
                 (API_downloadFolder ''repo/dir'' (case None of None \<Rightarrow> ''zip'' | Some a \<Rightarrow> a)) GET None)
              = Response \<lparr>ok = False, status = 500, bodyText = ''Internal Server Error'', bodyJson = None\<rparr>"
    by (simp add: demoWorld_def serverAlways_def reply_def)
  have h3: "write_fault ?w (resolve ?w ''dir.zip'') = None"
    by (simp add: demoWorld_def)
  from downloadFolder_ignores_status [OF h1 h2 h3]
  show ?thesis
    by (simp add: demoWorld_def)
qed

end
